theory Spec2Isabelle
  imports Complex_Main "HOL-Library.AList" "HOL-Library.Sublist"
begin

section \<open>Values and data model\<close>

text \<open>
  The persisted state travels as text and is read with \<open>json.loads\<close> and written with
  \<open>json.dumps\<close>. The value \<open>json.loads\<close> hands to the strategies is a JSON value:
  \<open>None\<close>, a bool, a number, a str, a list or a dict (insertion-ordered, modelled as an
  association list that \<open>AList.update\<close> changes in place or extends at the end, as
  assignment to a dict key does).

  Numbers: Python's int and float are both read as exact reals (\<open>JNum\<close>) and
  arithmetic is exact. The code computes with IEEE doubles wherever a float takes
  part. The two agree where every intermediate result is a double: on integers and
  halves of moderate size, as the mid-prices of an integer order book and the stored
  position are. Elsewhere a double result is the rounded real one, so a comparison of
  the code can come out the other way when the real operands are closer to each other
  than the rounding error. Statements below that depend on a computed value are
  therefore either about the value as the code has it (the deviation handed to the
  decision of the autoregressive strategy) or keep a margin to the boundary that is
  far wider than the rounding error. Infinities and NaN are no values of this model;
  of the exceptions of float arithmetic it has the \<open>OverflowError\<close> of line 178. A
  bool counts as the number 0 or 1 in arithmetic, as in Python.
\<close>

datatype json =
    JNull
  | JBool bool
  | JNum real
  | JStr string
  | JArr "json list"
  | JObj "(string \<times> json) list"

text \<open>The exceptions the strategies can raise to their caller.\<close>

datatype py_error = TypeError | KeyError | AttributeError | ZeroDivisionError | OverflowError

text \<open>\<open>Order(symbol, price, quantity)\<close>: positive quantity buys, negative sells.\<close>

record py_order =
  symbol :: string
  price :: int
  quantity :: real

text \<open>\<open>OrderDepth\<close>: two dicts from price to quantity; only the price keys are read.\<close>

record order_depth =
  buy_orders :: "(int \<times> int) list"
  sell_orders :: "(int \<times> int) list"

text \<open>
  \<open>TradingState\<close>: the fields \<open>Trader.run\<close> reads. The type of the state text is a
  parameter \<open>'b\<close> (\<open>str\<close> in the source): the code touches it only through
  \<open>json.loads\<close> and \<open>json.dumps\<close>, which every function below takes as the
  parameters \<open>loads\<close> (\<open>None\<close> when \<open>json.loads\<close> raises) and \<open>dumps\<close>.
\<close>

record 'b trading_state =
  traderData :: 'b
  order_depths :: "(string \<times> order_depth) list"

section \<open>Python operations on JSON values\<close>

text \<open>\<open>k in container\<close> for a str \<open>k\<close>: key test on a dict, element test on a list,
  substring test on a str, \<open>TypeError\<close> on anything else.\<close>

fun py_contains :: "json \<Rightarrow> string \<Rightarrow> py_error + bool" where
  "py_contains (JObj kvs) k = Inr (k \<in> fst ` set kvs)"
| "py_contains (JArr xs) k = Inr (JStr k \<in> set xs)"
| "py_contains (JStr s) k = Inr (sublist k s)"
| "py_contains JNull k = Inl TypeError"
| "py_contains (JBool b) k = Inl TypeError"
| "py_contains (JNum r) k = Inl TypeError"

text \<open>\<open>container[k] = v\<close> for a str \<open>k\<close>: only a dict accepts it.\<close>

fun py_setitem :: "json \<Rightarrow> string \<Rightarrow> json \<Rightarrow> py_error + json" where
  "py_setitem (JObj kvs) k v = Inr (JObj (AList.update k v kvs))"
| "py_setitem (JArr xs) k v = Inl TypeError"
| "py_setitem (JStr s) k v = Inl TypeError"
| "py_setitem JNull k v = Inl TypeError"
| "py_setitem (JBool b) k v = Inl TypeError"
| "py_setitem (JNum r) k v = Inl TypeError"

text \<open>\<open>container[k]\<close> for a str \<open>k\<close>: \<open>KeyError\<close> on a dict without the key,
  \<open>TypeError\<close> on a list, a str and on every value that is not subscriptable.\<close>

fun py_getitem :: "json \<Rightarrow> string \<Rightarrow> py_error + json" where
  "py_getitem (JObj kvs) k = (case map_of kvs k of None \<Rightarrow> Inl KeyError | Some v \<Rightarrow> Inr v)"
| "py_getitem (JArr xs) k = Inl TypeError"
| "py_getitem (JStr s) k = Inl TypeError"
| "py_getitem JNull k = Inl TypeError"
| "py_getitem (JBool b) k = Inl TypeError"
| "py_getitem (JNum r) k = Inl TypeError"

text \<open>\<open>history[k].append(v)\<close>: the list stored under \<open>k\<close> grows in place; a stored
  value that is not a list has no \<open>append\<close>. Returns the grown list and the dict.\<close>

definition append_at :: "json \<Rightarrow> string \<Rightarrow> json \<Rightarrow> py_error + (json list \<times> json)" where
  "append_at history k v =
     (case py_getitem history k of
        Inl e \<Rightarrow> Inl e
      | Inr (JArr xs) \<Rightarrow>
          (case py_setitem history k (JArr (xs @ [v])) of
             Inl e \<Rightarrow> Inl e
           | Inr history' \<Rightarrow> Inr (xs @ [v], history'))
      | Inr _ \<Rightarrow> Inl AttributeError)"

text \<open>The number a JSON value stands for in arithmetic, if any.\<close>

fun as_number :: "json \<Rightarrow> real option" where
  "as_number (JNum r) = Some r"
| "as_number (JBool b) = Some (if b then 1 else 0)"
| "as_number JNull = None"
| "as_number (JStr s) = None"
| "as_number (JArr xs) = None"
| "as_number (JObj kvs) = None"

text \<open>The operands of \<open>sum(xs)\<close>: a value that is not a number makes the sum raise
  \<open>TypeError\<close>.\<close>

definition py_numbers :: "json list \<Rightarrow> real list option" where
  "py_numbers xs = those (map as_number xs)"

text \<open>Iteration, as \<open>zip\<close> does it: a list gives its elements, a str its characters, a
  dict its keys.\<close>

fun py_iter :: "json \<Rightarrow> py_error + json list" where
  "py_iter (JArr xs) = Inr xs"
| "py_iter (JStr s) = Inr (map (\<lambda>c. JStr [c]) s)"
| "py_iter (JObj kvs) = Inr (map (\<lambda>kv. JStr (fst kv)) kvs)"
| "py_iter JNull = Inl TypeError"
| "py_iter (JBool b) = Inl TypeError"
| "py_iter (JNum r) = Inl TypeError"

text \<open>The slice \<open>xs[-n:]\<close> for a count \<open>n\<close>: the last \<open>n\<close> elements, and the whole list
  when \<open>n\<close> is 0 or exceeds the length.\<close>

definition last_n :: "nat \<Rightarrow> 'a list \<Rightarrow> 'a list" where
  "last_n n xs = (if n = 0 then xs else drop (length xs - n) xs)"

text \<open>\<open>int(x)\<close> on a float: truncation towards zero.\<close>

definition py_int :: "real \<Rightarrow> int" where
  "py_int x = (if 0 \<le> x then \<lfloor>x\<rfloor> else \<lceil>x\<rceil>)"

text \<open>\<open>min(d.keys())\<close> and \<open>max(d.keys())\<close> of a non-empty dict.\<close>

definition min_key :: "(int \<times> int) list \<Rightarrow> int" where
  "min_key d = Min (fst ` set d)"

definition max_key :: "(int \<times> int) list \<Rightarrow> int" where
  "max_key d = Max (fst ` set d)"

section \<open>Mean-reversion strategy (\<open>compute_rainforest_orders\<close>)\<close>

text \<open>Lines 69-74: the \<open>try\<close> block. Any exception inside it, from the parse, from the
  membership test or from the assignment, selects the default history.\<close>

definition load_rainforest_history :: "('b \<Rightarrow> json option) \<Rightarrow> 'b \<Rightarrow> json" where
  "load_rainforest_history loads trader_data =
     (case loads trader_data of
        None \<Rightarrow> JObj [(''rainforest_prices'', JArr [])]
      | Some history \<Rightarrow>
          (case py_contains history ''rainforest_prices'' of
             Inl e \<Rightarrow> JObj [(''rainforest_prices'', JArr [])]
           | Inr True \<Rightarrow> history
           | Inr False \<Rightarrow>
               (case py_setitem history ''rainforest_prices'' (JArr []) of
                  Inl e \<Rightarrow> JObj [(''rainforest_prices'', JArr [])]
                | Inr history' \<Rightarrow> history')))"

text \<open>Lines 83-88 and 97: mean, population standard deviation, z-score, scale factor.\<close>

definition rolling_mean :: "real list \<Rightarrow> nat \<Rightarrow> real" where
  "rolling_mean recent_prices window_size = sum_list recent_prices / real window_size"

definition rolling_std :: "real list \<Rightarrow> nat \<Rightarrow> real" where
  "rolling_std recent_prices window_size =
     sqrt (sum_list (map (\<lambda>p. (p - rolling_mean recent_prices window_size)\<^sup>2) recent_prices)
           / real window_size)"

definition z_score :: "real \<Rightarrow> real \<Rightarrow> real \<Rightarrow> real" where
  "z_score mid_price mean std = (if std \<noteq> 0 then (mid_price - mean) / std else 0)"

definition scale_factor :: "real \<Rightarrow> int" where
  "scale_factor z = max 1 (py_int (\<bar>z\<bar> * 2))"

text \<open>Lines 98-109: the order, if any, for a z-score.\<close>

definition rainforest_signal :: "string \<Rightarrow> order_depth \<Rightarrow> int \<Rightarrow> real \<Rightarrow> py_order list" where
  "rainforest_signal target_product order_depth base_quantity z =
     (let order_quantity = base_quantity * scale_factor z in
      if z < - 1.5 \<and> sell_orders order_depth \<noteq> [] then
        [\<lparr>symbol = target_product, price = min_key (sell_orders order_depth),
          quantity = real_of_int order_quantity\<rparr>]
      else if z > 1.5 \<and> buy_orders order_depth \<noteq> [] then
        [\<lparr>symbol = target_product, price = max_key (buy_orders order_depth),
          quantity = - real_of_int order_quantity\<rparr>]
      else [])"

text \<open>Lines 51-112. \<open>window_size\<close> is a count (20 by default; a negative window is
  not modelled), \<open>base_quantity\<close> an int (10 by default). The result is \<open>Inl\<close> the
  exception that reaches the caller, or \<open>Inr\<close> the orders and the new state text.\<close>

definition compute_rainforest_orders ::
  "('b \<Rightarrow> json option) \<Rightarrow> (json \<Rightarrow> 'b) \<Rightarrow> string \<Rightarrow> order_depth \<Rightarrow> real \<Rightarrow> 'b \<Rightarrow> nat \<Rightarrow> int
     \<Rightarrow> py_error + (py_order list \<times> 'b)" where
  "compute_rainforest_orders loads dumps target_product order_depth mid_price trader_data
       window_size base_quantity =
     (case append_at (load_rainforest_history loads trader_data) ''rainforest_prices''
             (JNum mid_price) of
        Inl e \<Rightarrow> Inl e
      | Inr (prices, history) \<Rightarrow>
          if length prices \<ge> window_size then
            (case py_numbers (last_n window_size prices) of
               None \<Rightarrow> Inl TypeError
             | Some recent_prices \<Rightarrow>
                 if window_size = 0 then Inl ZeroDivisionError
                 else
                   Inr (rainforest_signal target_product order_depth base_quantity
                          (z_score mid_price (rolling_mean recent_prices window_size)
                             (rolling_std recent_prices window_size)),
                        dumps history))
          else Inr ([], dumps history))"

section \<open>Autoregressive strategy (\<open>compute_model_based_orders\<close>)\<close>

text \<open>Lines 151-154: the pre-trained parameters stored at first use.\<close>

definition default_model_params :: json where
  "default_model_params =
     JObj [(''intercept'', JNum 0.39903304835706876),
           (''coefficients'',
              JArr [JNum 0.81988331, JNum 0.1248814, JNum 0.07095404, JNum (- 0.01592438)])]"

text \<open>\<open>if k not in history: history[k] = v\<close>, outside any \<open>try\<close> (lines 144-154).\<close>

definition init_key :: "json \<Rightarrow> string \<Rightarrow> json \<Rightarrow> py_error + json" where
  "init_key history k v =
     (case py_contains history k of
        Inl e \<Rightarrow> Inl e
      | Inr True \<Rightarrow> Inr history
      | Inr False \<Rightarrow> py_setitem history k v)"

text \<open>The product \<open>c * p\<close> as an operand of \<open>sum\<close>: with an operand that is not a number
  either the product or the sum that consumes it raises \<open>TypeError\<close>.\<close>

definition py_product :: "json \<times> json \<Rightarrow> real option" where
  "py_product cp =
     (case as_number (fst cp) of
        None \<Rightarrow> None
      | Some c \<Rightarrow> (case as_number (snd cp) of None \<Rightarrow> None | Some p \<Rightarrow> Some (c * p)))"

text \<open>Line 168: \<open>intercept + sum(c * p for c, p in zip(coefficients, recent_prices))\<close>.\<close>

definition predict :: "json \<Rightarrow> json \<Rightarrow> json list \<Rightarrow> py_error + real" where
  "predict intercept coefficients recent_prices =
     (case py_iter coefficients of
        Inl e \<Rightarrow> Inl e
      | Inr cs \<Rightarrow>
          (case those (map py_product (zip cs recent_prices)) of
             None \<Rightarrow> Inl TypeError
           | Some products \<Rightarrow>
               (case as_number intercept of
                  None \<Rightarrow> Inl TypeError
                | Some i \<Rightarrow> Inr (i + sum_list products))))"

text \<open>A real number is beyond the doubles when rounding to nearest takes it to an
  infinity, which is from \<open>2^1024 - 2^970\<close> on in absolute value.\<close>

definition double_overflow :: "real \<Rightarrow> bool" where
  "double_overflow x \<longleftrightarrow> 2 ^ 1024 - 2 ^ 970 \<le> \<bar>x\<bar>"

text \<open>The number of binary digits of a positive int (\<open>int.bit_length\<close>).\<close>

function bit_length :: "int \<Rightarrow> nat" where
  "bit_length n = (if n \<le> 0 then 0 else Suc (bit_length (n div 2)))"
  by pat_completeness auto

termination
  by (relation "measure nat") auto

declare bit_length.simps [simp del]

text \<open>The double an int is converted to when it meets a float in a product: the int
  itself up to 53 bits, beyond that the nearest number of 53 significant bits, a tie
  going to the even one. The result is \<open>2^1024\<close> in absolute value exactly when the
  conversion raises \<open>OverflowError\<close>.\<close>

definition py_float :: "int \<Rightarrow> real" where
  "py_float n =
     (if \<bar>n\<bar> < 2 ^ 53 then real_of_int n
      else
        (let e = bit_length \<bar>n\<bar> - 53;
             q = \<bar>n\<bar> div 2 ^ e;
             r = \<bar>n\<bar> mod 2 ^ e;
             q' = (if 2 * r > 2 ^ e \<or> (2 * r = 2 ^ e \<and> odd q) then q + 1 else q)
         in real_of_int (sgn n * q' * 2 ^ e)))"

text \<open>Lines 178-181: \<open>min(int(base_quantity * abs(deviation)), max_position)\<close>. The
  product is a float product: the int \<open>base_quantity\<close> is converted first, and the
  conversion raises \<open>OverflowError\<close> for an int beyond the doubles; a product beyond
  the doubles is the infinite double, and \<open>int\<close> of it raises \<open>OverflowError\<close>.\<close>

definition model_order_quantity :: "int \<Rightarrow> real \<Rightarrow> int \<Rightarrow> py_error + int" where
  "model_order_quantity base_quantity deviation max_position =
     (if double_overflow (py_float base_quantity) then Inl OverflowError
      else if double_overflow (py_float base_quantity * \<bar>deviation\<bar>) then Inl OverflowError
      else Inr (min (py_int (py_float base_quantity * \<bar>deviation\<bar>)) max_position))"

text \<open>Lines 175-207: the decision once the deviation is known. \<open>order_quantity\<close> is
  computed, which can raise, and its value is never used, as in the source.\<close>

definition model_decision ::
  "(json \<Rightarrow> 'b) \<Rightarrow> string \<Rightarrow> order_depth \<Rightarrow> json \<Rightarrow> real \<Rightarrow> int \<Rightarrow> real \<Rightarrow> int
     \<Rightarrow> py_error + (py_order list \<times> 'b)" where
  "model_decision dumps target_product order_depth history deviation base_quantity threshold
       max_position =
     (if \<bar>deviation\<bar> > threshold then
        (case model_order_quantity base_quantity deviation max_position of
           Inl e \<Rightarrow> Inl e
         | Inr order_quantity \<Rightarrow>
        (case py_getitem history ''position'' of
           Inl e \<Rightarrow> Inl e
         | Inr current_position \<Rightarrow>
             if deviation > threshold \<and> sell_orders order_depth \<noteq> [] then
               (case as_number current_position of
                  None \<Rightarrow> Inl TypeError
                | Some pos \<Rightarrow>
                    (let trade_size = real_of_int max_position - pos in
                     if trade_size > 0 then
                       (case py_setitem history ''position'' (JNum (pos + trade_size)) of
                          Inl e \<Rightarrow> Inl e
                        | Inr history' \<Rightarrow>
                            Inr ([\<lparr>symbol = target_product,
                                   price = min_key (sell_orders order_depth),
                                   quantity = trade_size\<rparr>], dumps history'))
                     else Inr ([], dumps history)))
             else if deviation < - threshold \<and> buy_orders order_depth \<noteq> [] then
               (case as_number current_position of
                  None \<Rightarrow> Inl TypeError
                | Some pos \<Rightarrow>
                    (let trade_size = pos - (- real_of_int max_position) in
                     if trade_size > 0 then
                       (case py_setitem history ''position'' (JNum (pos - trade_size)) of
                          Inl e \<Rightarrow> Inl e
                        | Inr history' \<Rightarrow>
                            Inr ([\<lparr>symbol = target_product,
                                   price = max_key (buy_orders order_depth),
                                   quantity = - trade_size\<rparr>], dumps history'))
                     else Inr ([], dumps history)))
             else Inr ([], dumps history)))
      else Inr ([], dumps history))"

text \<open>Lines 138-154: the parse, whose failure alone selects the empty dict, and the three
  defaults stored under the keys that are missing.\<close>

definition load_model_history :: "('b \<Rightarrow> json option) \<Rightarrow> 'b \<Rightarrow> py_error + json" where
  "load_model_history loads trader_data =
     (case init_key (case loads trader_data of None \<Rightarrow> JObj [] | Some history \<Rightarrow> history)
             ''model_history'' (JArr []) of
        Inl e \<Rightarrow> Inl e
      | Inr history1 \<Rightarrow>
          (case init_key history1 ''position'' (JNum 0) of
             Inl e \<Rightarrow> Inl e
           | Inr history2 \<Rightarrow> init_key history2 ''model_params'' default_model_params))"

text \<open>Lines 115-209. \<open>lag\<close> is a count (4 by default; a negative lag is not modelled);
  \<open>base_quantity\<close> is 10, \<open>threshold\<close> 1.0 and \<open>max_position\<close> 50 by default.\<close>

definition compute_model_based_orders ::
  "('b \<Rightarrow> json option) \<Rightarrow> (json \<Rightarrow> 'b) \<Rightarrow> string \<Rightarrow> order_depth \<Rightarrow> real \<Rightarrow> 'b \<Rightarrow> nat \<Rightarrow> int
     \<Rightarrow> real \<Rightarrow> int \<Rightarrow> py_error + (py_order list \<times> 'b)" where
  "compute_model_based_orders loads dumps target_product order_depth mid_price trader_data
       lag base_quantity threshold max_position =
     (case load_model_history loads trader_data of
        Inl e \<Rightarrow> Inl e
      | Inr history0 \<Rightarrow>
     (case append_at history0 ''model_history'' (JNum mid_price) of
        Inl e \<Rightarrow> Inl e
      | Inr (model_history, history) \<Rightarrow>
          if length model_history \<ge> lag then
            (case py_getitem history ''model_params'' of
               Inl e \<Rightarrow> Inl e
             | Inr model_params \<Rightarrow>
            (case py_getitem model_params ''intercept'' of
               Inl e \<Rightarrow> Inl e
             | Inr intercept \<Rightarrow>
            (case py_getitem model_params ''coefficients'' of
               Inl e \<Rightarrow> Inl e
             | Inr coefficients \<Rightarrow>
            (case predict intercept coefficients (last_n lag model_history) of
               Inl e \<Rightarrow> Inl e
             | Inr predicted_price \<Rightarrow>
                 model_decision dumps target_product order_depth history
                   (predicted_price - mid_price) base_quantity threshold max_position))))
          else Inr ([], dumps history)))"

section \<open>Cycle orchestrator (\<open>Trader.run\<close>)\<close>

definition target_product :: string where
  "target_product = ''RAINFOREST_RESIN''"

text \<open>Lines 15-17: every product of the snapshot other than the target gets an empty
  order list.\<close>

definition ignore_others :: "(string \<times> order_depth) list \<Rightarrow> (string \<times> py_order list) list" where
  "ignore_others depths =
     fold (\<lambda>product result. if product \<noteq> target_product then AList.update product [] result
                             else result)
          (map fst depths) []"

text \<open>Lines 26-34: the mid-price, \<open>None\<close> when both sides of the book are empty.\<close>

definition mid_price_of :: "order_depth \<Rightarrow> real option" where
  "mid_price_of order_depth =
     (if buy_orders order_depth \<noteq> [] \<and> sell_orders order_depth \<noteq> [] then
        Some ((real_of_int (max_key (buy_orders order_depth))
               + real_of_int (min_key (sell_orders order_depth))) / 2)
      else if sell_orders order_depth \<noteq> [] then
        Some (real_of_int (min_key (sell_orders order_depth)))
      else if buy_orders order_depth \<noteq> [] then
        Some (real_of_int (max_key (buy_orders order_depth)))
      else None)"

text \<open>Lines 7-47 (the two \<open>print\<close> calls leave no trace in the result). The result is
  the order lists per product, the conversions value and the state text.\<close>

definition run ::
  "('b \<Rightarrow> json option) \<Rightarrow> (json \<Rightarrow> 'b) \<Rightarrow> 'b trading_state
     \<Rightarrow> py_error + ((string \<times> py_order list) list \<times> int \<times> 'b)" where
  "run loads dumps state =
     (let result = ignore_others (order_depths state) in
      case map_of (order_depths state) target_product of
        None \<Rightarrow> Inr (result, 1, traderData state)
      | Some order_depth \<Rightarrow>
          (case mid_price_of order_depth of
             None \<Rightarrow> Inr (AList.update target_product [] result, 1, traderData state)
           | Some mid_price \<Rightarrow>
               (case compute_rainforest_orders loads dumps target_product order_depth mid_price
                       (traderData state) 20 10 of
                  Inl e \<Rightarrow> Inl e
                | Inr (orders, new_trader_data) \<Rightarrow>
                    Inr (AList.update target_product orders result, 1, new_trader_data))))"

section \<open>Cycles in sequence\<close>

text \<open>The harness calls a strategy once per cycle and hands the state text one call
  returns to the next call. \<open>repeat_cycles\<close> runs a strategy over the order books of
  successive cycles and collects the orders; a call that raises ends the run.

  What the next call reads is \<open>loads (dumps h)\<close>. Statements about several cycles assume
  \<open>loads (dumps h) = Some h\<close>, the round trip of \<open>json\<close> on what it wrote itself. Closed
  examples take the state text to be its own parse: \<open>loads\<close> is the identity on
  \<open>json option\<close> (\<open>None\<close> for a text that does not parse) and \<open>dumps\<close> is \<open>Some\<close>. Since
  numbers are exact reals here, the assumption asks the round trip of more values than
  a text encoding of doubles has to carry.\<close>

fun repeat_cycles ::
  "(order_depth \<Rightarrow> 'b \<Rightarrow> py_error + (py_order list \<times> 'b)) \<Rightarrow> order_depth list \<Rightarrow> 'b
     \<Rightarrow> py_error + (py_order list \<times> 'b)" where
  "repeat_cycles strategy [] trader_data = Inr ([], trader_data)"
| "repeat_cycles strategy (order_depth # rest) trader_data =
     (case strategy order_depth trader_data of
        Inl e \<Rightarrow> Inl e
      | Inr (orders, new_trader_data) \<Rightarrow>
          (case repeat_cycles strategy rest new_trader_data of
             Inl e \<Rightarrow> Inl e
           | Inr (more_orders, final_trader_data) \<Rightarrow>
               Inr (orders @ more_orders, final_trader_data)))"

text \<open>The state texts the autoregressive strategy can hand back when the first call
  gets a text that \<open>json.loads\<close> rejects (the default-initialised state) and every later
  call gets the text of the call before it; order book, mid-price, lag, base quantity
  and threshold are free in every cycle.\<close>

inductive reachable ::
  "('b \<Rightarrow> json option) \<Rightarrow> (json \<Rightarrow> 'b) \<Rightarrow> int \<Rightarrow> 'b \<Rightarrow> bool"
  for loads :: "'b \<Rightarrow> json option" and dumps :: "json \<Rightarrow> 'b" and max_position :: int where
  first_cycle:
    "loads trader_data = None \<Longrightarrow>
     compute_model_based_orders loads dumps product order_depth mid_price trader_data
       lag base_quantity threshold max_position = Inr (orders, new_trader_data) \<Longrightarrow>
     reachable loads dumps max_position new_trader_data"
| next_cycle:
    "reachable loads dumps max_position trader_data \<Longrightarrow>
     compute_model_based_orders loads dumps product order_depth mid_price trader_data
       lag base_quantity threshold max_position = Inr (orders, new_trader_data) \<Longrightarrow>
     reachable loads dumps max_position new_trader_data"

section \<open>Properties of the orchestrator\<close>







lemma run_target_absent:
  "map_of (order_depths st) target_product = None \<Longrightarrow>
   run loads dumps st = Inr (ignore_others (order_depths st), 1, traderData st)"
  by (simp add: run_def)

lemma run_mid_unknown:
  "map_of (order_depths st) target_product = Some od \<Longrightarrow> mid_price_of od = None \<Longrightarrow>
   run loads dumps st =
     Inr (AList.update target_product [] (ignore_others (order_depths st)), 1, traderData st)"
  by (simp add: run_def)

lemma mid_price_of_None:
  "mid_price_of od = None \<longleftrightarrow> buy_orders od = [] \<and> sell_orders od = []"
  by (simp add: mid_price_of_def)


text \<open>
  C10. When the target product is missing from the snapshot, or present with an empty
  book on both sides, \<open>run\<close> returns normally and its state text is the caller's
  \<open>traderData\<close> itself: nothing was appended to any history.
\<close>

theorem run_returns_input_state_without_mid_price:
  assumes "map_of (order_depths st) target_product = None
           \<or> (\<exists>od. map_of (order_depths st) target_product = Some od
                    \<and> buy_orders od = [] \<and> sell_orders od = [])"
  shows "\<exists>result. run loads dumps st = Inr (result, 1, traderData st)"
  using assms by (auto simp: run_target_absent run_mid_unknown mid_price_of_None)

theorem run_returns_input_state_without_mid_price_witness:
  "map_of (order_depths \<lparr>traderData = ''not json'',
       order_depths = [(''RAINFOREST_RESIN'', \<lparr>buy_orders = [], sell_orders = []\<rparr>)]\<rparr>)
       target_product
     = Some \<lparr>buy_orders = [], sell_orders = []\<rparr>
   \<and> (\<exists>result. run (\<lambda>s. None) (\<lambda>h. ''dumped'') \<lparr>traderData = ''not json'',
       order_depths = [(''RAINFOREST_RESIN'', \<lparr>buy_orders = [], sell_orders = []\<rparr>)]\<rparr>
        = Inr (result, 1, ''not json''))"
  using run_returns_input_state_without_mid_price
    [of "\<lparr>traderData = ''not json'',
       order_depths = [(''RAINFOREST_RESIN'', \<lparr>buy_orders = [], sell_orders = []\<rparr>)]\<rparr>"
       "\<lambda>s. None" "\<lambda>h. ''dumped''"]
  by (simp add: target_product_def)



section \<open>Properties of the strategies\<close>

subsection \<open>Loading and appending\<close>

lemma load_rainforest_history_obj:
  "loads td = Some (JObj kvs) \<Longrightarrow>
   load_rainforest_history loads td =
     JObj (if ''rainforest_prices'' \<in> fst ` set kvs then kvs
           else AList.update ''rainforest_prices'' (JArr []) kvs)"
  by (simp add: load_rainforest_history_def)

lemma append_at_obj:
  "map_of kvs k = Some (JArr xs) \<Longrightarrow>
   append_at (JObj kvs) k v = Inr (xs @ [v], JObj (AList.update k (JArr (xs @ [v])) kvs))"
  by (simp add: append_at_def)

lemma init_key_obj:
  "init_key (JObj kvs) k v = Inr (JObj (if k \<in> fst ` set kvs then kvs else AList.update k v kvs))"
  by (simp add: init_key_def)

lemma map_of_update_other:
  "k' \<noteq> k \<Longrightarrow> map_of (AList.update k v kvs) k' = map_of kvs k'"
  by (simp add: update_conv')

lemma map_of_update_same: "map_of (AList.update k v kvs) k = Some v"
  by (simp add: update_conv')

lemma key_in_dict: "k \<in> fst ` set kvs \<longleftrightarrow> map_of kvs k \<noteq> None"
  by (simp add: map_of_eq_None_iff)

subsection \<open>What a call computes on a well-formed history\<close>


lemma compute_rainforest_orders_full:
  assumes "load_rainforest_history loads td = JObj kvs"
    and "map_of kvs ''rainforest_prices'' = Some (JArr xs)"
    and "window_size \<le> length xs + 1" and "0 < window_size"
    and "py_numbers (last_n window_size (xs @ [JNum mid])) = Some recent"
  shows "compute_rainforest_orders loads dumps tp od mid td window_size bq =
           Inr (rainforest_signal tp od bq
                  (z_score mid (rolling_mean recent window_size) (rolling_std recent window_size)),
                dumps (JObj (AList.update ''rainforest_prices'' (JArr (xs @ [JNum mid])) kvs)))"
  using assms by (simp add: compute_rainforest_orders_def append_at_obj)


lemma compute_model_based_orders_full:
  assumes "load_model_history loads td = Inr (JObj kvs)"
    and "map_of kvs ''model_history'' = Some (JArr xs)"
    and "lag \<le> length xs + 1"
    and "map_of kvs ''model_params'' = Some (JObj ps)"
    and "map_of ps ''intercept'' = Some i"
    and "map_of ps ''coefficients'' = Some cs"
    and "predict i cs (last_n lag (xs @ [JNum mid])) = Inr predicted"
  shows "compute_model_based_orders loads dumps tp od mid td lag bq th mp =
           model_decision dumps tp od
             (JObj (AList.update ''model_history'' (JArr (xs @ [JNum mid])) kvs))
             (predicted - mid) bq th mp"
  using assms
  by (simp add: compute_model_based_orders_def append_at_obj map_of_update_other)

subsection \<open>Where a call raises\<close>

lemma load_model_history_not_obj:
  assumes "loads td = Some h" and "\<forall>kvs. h \<noteq> JObj kvs"
  shows "load_model_history loads td = Inl TypeError
         \<or> load_model_history loads td = Inr h"
proof -
  have step: "init_key h k v = Inl TypeError \<or> init_key h k v = Inr h" for k v
    using assms(2) by (cases h) (simp_all add: init_key_def split: bool.splits)
  show ?thesis
    using assms(1) step [of "''model_history''" "JArr []"] step [of "''position''" "JNum 0"]
      step [of "''model_params''" default_model_params]
    by (auto simp: load_model_history_def)
qed

lemma append_at_not_obj: "\<forall>kvs. h \<noteq> JObj kvs \<Longrightarrow> append_at h k v = Inl TypeError"
  by (cases h) (simp_all add: append_at_def)

lemma append_at_not_list:
  "map_of kvs k = Some v \<Longrightarrow> \<forall>xs. v \<noteq> JArr xs \<Longrightarrow> append_at (JObj kvs) k v' = Inl AttributeError"
  by (cases v) (simp_all add: append_at_def)

text \<open>
  C1 (what the code does where the claim fails). The autoregressive strategy raises
  \<open>TypeError\<close> on every state text that is valid JSON but not an object: its key tests
  stand outside the \<open>try\<close>. The mean-reversion strategy raises \<open>AttributeError\<close> on an
  object whose \<open>rainforest_prices\<close> is not a list: the \<open>append\<close> stands outside the
  \<open>try\<close>.
\<close>

theorem strategies_raise_on_ill_typed_state:
  "(loads td = Some h \<and> (\<forall>kvs. h \<noteq> JObj kvs) \<longrightarrow>
      compute_model_based_orders loads dumps tp od mid td lag bq th mp = Inl TypeError)
   \<and> (loads td = Some (JObj kvs) \<and> map_of kvs ''rainforest_prices'' = Some v
        \<and> (\<forall>xs. v \<noteq> JArr xs) \<longrightarrow>
      compute_rainforest_orders loads dumps tp od mid td window_size bq = Inl AttributeError)"
proof (intro conjI impI)
  assume a: "loads td = Some h \<and> (\<forall>kvs. h \<noteq> JObj kvs)"
  then have a1: "loads td = Some h" and a2: "\<forall>kvs. h \<noteq> JObj kvs"
    by simp_all
  have stuck: "append_at h ''model_history'' (JNum mid) = Inl TypeError"
    using a2 by (rule append_at_not_obj)
  from load_model_history_not_obj [where loads = loads and td = td, OF a1 a2]
  show "compute_model_based_orders loads dumps tp od mid td lag bq th mp = Inl TypeError"
  proof
    assume "load_model_history loads td = Inl TypeError"
    then show ?thesis by (simp add: compute_model_based_orders_def)
  next
    assume "load_model_history loads td = Inr h"
    then show ?thesis by (simp add: compute_model_based_orders_def stuck)
  qed
next
  assume b: "loads td = Some (JObj kvs) \<and> map_of kvs ''rainforest_prices'' = Some v
        \<and> (\<forall>xs. v \<noteq> JArr xs)"
  then have b1: "loads td = Some (JObj kvs)"
    and b2: "map_of kvs ''rainforest_prices'' = Some v"
    and b3: "\<forall>xs. v \<noteq> JArr xs"
    by simp_all
  from b2 have "''rainforest_prices'' \<in> fst ` set kvs"
    by (simp add: key_in_dict)
  with b1 have loaded: "load_rainforest_history loads td = JObj kvs"
    by (simp add: load_rainforest_history_obj)
  have stuck: "append_at (JObj kvs) ''rainforest_prices'' (JNum mid) = Inl AttributeError"
    using b2 b3 by (rule append_at_not_list)
  show "compute_rainforest_orders loads dumps tp od mid td window_size bq
      = Inl AttributeError"
    by (simp add: compute_rainforest_orders_def loaded stuck)
qed

theorem strategies_raise_on_ill_typed_state_witness:
  \<open>compute_model_based_orders
       (\<lambda>s. if s = ''5'' then Some (JNum 5)
             else if s = ''{"rainforest_prices": 5}''
                  then Some (JObj [(''rainforest_prices'', JNum 5)])
             else None)
       (\<lambda>h. ''dumped'') ''RAINFOREST_RESIN''
       \<lparr>buy_orders = [(9998, 5)], sell_orders = [(10002, - 4)]\<rparr> 10000 ''5'' 4 10 1 50
     = Inl TypeError
   \<and> compute_rainforest_orders
       (\<lambda>s. if s = ''5'' then Some (JNum 5)
             else if s = ''{"rainforest_prices": 5}''
                  then Some (JObj [(''rainforest_prices'', JNum 5)])
             else None)
       (\<lambda>h. ''dumped'') ''RAINFOREST_RESIN''
       \<lparr>buy_orders = [(9998, 5)], sell_orders = [(10002, - 4)]\<rparr> 10000
       ''{"rainforest_prices": 5}'' 20 10
     = Inl AttributeError\<close>
  using strategies_raise_on_ill_typed_state
      [where loads = \<open>\<lambda>s. if s = ''5'' then Some (JNum 5)
             else if s = ''{"rainforest_prices": 5}''
                  then Some (JObj [(''rainforest_prices'', JNum 5)])
             else None\<close> and td = "''5''" and h = "JNum 5"]
    strategies_raise_on_ill_typed_state
      [where loads = \<open>\<lambda>s. if s = ''5'' then Some (JNum 5)
             else if s = ''{"rainforest_prices": 5}''
                  then Some (JObj [(''rainforest_prices'', JNum 5)])
             else None\<close> and td = \<open>''{"rainforest_prices": 5}''\<close>
          and kvs = "[(''rainforest_prices'', JNum 5)]" and v = "JNum 5"]
  by simp

subsection \<open>The dict a call writes back\<close>

lemma append_at_result:
  assumes "append_at h k v = Inr (ys, h')"
  shows "\<exists>kvs xs. h = JObj kvs \<and> map_of kvs k = Some (JArr xs) \<and> ys = xs @ [v]
           \<and> h' = JObj (AList.update k (JArr (xs @ [v])) kvs)"
proof (cases h)
  case (JObj kvs)
  show ?thesis
  proof (cases "map_of kvs k")
    case None
    with JObj assms show ?thesis by (simp add: append_at_def)
  next
    case (Some w)
    with JObj assms show ?thesis by (cases w) (auto simp: append_at_def)
  qed
qed (use assms in \<open>simp_all add: append_at_def\<close>)

lemma model_decision_result:
  assumes "model_decision dumps tp od (JObj kvs) dev bq th mp = Inr (os, out)"
  shows "(os = [] \<and> out = dumps (JObj kvs))
         \<or> (\<exists>ord. os = [ord]
               \<and> out = dumps (JObj (AList.update ''position'' (JNum (real_of_int mp)) kvs)))
         \<or> (\<exists>ord. os = [ord]
               \<and> out = dumps (JObj (AList.update ''position'' (JNum (- real_of_int mp)) kvs)))"
proof (cases "model_order_quantity bq dev mp")
  case (Inl e)
  with assms show ?thesis
    by (simp add: model_decision_def split: if_splits)
next
  case (Inr q)
  show ?thesis
  proof (cases "map_of kvs ''position''")
    case None
    with Inr assms show ?thesis
      by (simp add: model_decision_def split: if_splits)
  next
    case (Some cur)
    show ?thesis
    proof (cases "as_number cur")
      case None
      with Some Inr assms show ?thesis
        by (simp add: model_decision_def split: if_splits)
    next
      case (Some pos)
      with \<open>map_of kvs ''position'' = Some cur\<close> Inr assms show ?thesis
        by (simp add: model_decision_def Let_def split: if_splits) auto
    qed
  qed
qed

lemma load_rainforest_history_frame:
  assumes "loads td = Some (JObj kvs)"
  shows "\<exists>kvs'. load_rainforest_history loads td = JObj kvs'
           \<and> (\<forall>k. k \<noteq> ''rainforest_prices'' \<longrightarrow> map_of kvs' k = map_of kvs k)"
  using assms by (auto simp: load_rainforest_history_obj map_of_update_other)

lemma init_key_frame:
  "\<exists>kvs'. init_key (JObj kvs) k v = Inr (JObj kvs')
      \<and> (\<forall>k'. k' \<noteq> k \<longrightarrow> map_of kvs' k' = map_of kvs k')
      \<and> (\<forall>w. map_of kvs k = Some w \<longrightarrow> map_of kvs' k = Some w)
      \<and> (map_of kvs k = None \<longrightarrow> map_of kvs' k = Some v)"
  by (auto simp: init_key_obj key_in_dict map_of_update_other map_of_update_same)

lemma load_model_history_frame:
  assumes "loads td = Some (JObj kvs)"
  shows "\<exists>kvs'. load_model_history loads td = Inr (JObj kvs')
           \<and> (\<forall>k. k \<notin> {''model_history'', ''position'', ''model_params''} \<longrightarrow>
                  map_of kvs' k = map_of kvs k)
           \<and> (\<forall>k w. map_of kvs k = Some w \<longrightarrow> map_of kvs' k = Some w)"
proof -
  obtain kvs1 where 1: "init_key (JObj kvs) ''model_history'' (JArr []) = Inr (JObj kvs1)"
    "\<forall>k'. k' \<noteq> ''model_history'' \<longrightarrow> map_of kvs1 k' = map_of kvs k'"
    "\<forall>w. map_of kvs ''model_history'' = Some w \<longrightarrow> map_of kvs1 ''model_history'' = Some w"
    using init_key_frame [of kvs "''model_history''" "JArr []"] by blast
  obtain kvs2 where 2: "init_key (JObj kvs1) ''position'' (JNum 0) = Inr (JObj kvs2)"
    "\<forall>k'. k' \<noteq> ''position'' \<longrightarrow> map_of kvs2 k' = map_of kvs1 k'"
    "\<forall>w. map_of kvs1 ''position'' = Some w \<longrightarrow> map_of kvs2 ''position'' = Some w"
    using init_key_frame [of kvs1 "''position''" "JNum 0"] by blast
  obtain kvs3 where 3: "init_key (JObj kvs2) ''model_params'' default_model_params = Inr (JObj kvs3)"
    "\<forall>k'. k' \<noteq> ''model_params'' \<longrightarrow> map_of kvs3 k' = map_of kvs2 k'"
    "\<forall>w. map_of kvs2 ''model_params'' = Some w \<longrightarrow> map_of kvs3 ''model_params'' = Some w"
    using init_key_frame [of kvs2 "''model_params''" default_model_params] by blast
  have loaded: "load_model_history loads td = Inr (JObj kvs3)"
    using assms 1(1) 2(1) 3(1) by (simp add: load_model_history_def)
  have other: "map_of kvs3 k = map_of kvs k"
    if "k \<notin> {''model_history'', ''position'', ''model_params''}" for k
    using that 1(2) 2(2) 3(2) by simp
  have kept: "map_of kvs3 k = Some w" if "map_of kvs k = Some w" for k w
  proof -
    have "map_of kvs1 k = Some w" using that 1(2,3) by (cases "k = ''model_history''") auto
    then have "map_of kvs2 k = Some w" using 2(2,3) by (cases "k = ''position''") auto
    then show ?thesis using 3(2,3) by (cases "k = ''model_params''") auto
  qed
  from loaded other kept show ?thesis by blast
qed

lemma compute_rainforest_orders_result:
  assumes "compute_rainforest_orders loads dumps tp od mid td window_size bq = Inr (os, out)"
  shows "\<exists>kvs xs. load_rainforest_history loads td = JObj kvs
           \<and> map_of kvs ''rainforest_prices'' = Some (JArr xs)
           \<and> out = dumps (JObj (AList.update ''rainforest_prices'' (JArr (xs @ [JNum mid])) kvs))"
proof (cases "append_at (load_rainforest_history loads td) ''rainforest_prices'' (JNum mid)")
  case (Inl e)
  with assms show ?thesis by (simp add: compute_rainforest_orders_def)
next
  case (Inr r)
  obtain ys h' where r: "r = (ys, h')" by (cases r)
  from append_at_result [OF Inr [unfolded r]] obtain kvs xs where
    k: "load_rainforest_history loads td = JObj kvs"
      "map_of kvs ''rainforest_prices'' = Some (JArr xs)"
      "h' = JObj (AList.update ''rainforest_prices'' (JArr (xs @ [JNum mid])) kvs)"
    by blast
  from assms Inr r have "out = dumps h'"
    by (simp add: compute_rainforest_orders_def split: if_splits option.splits)
  with k show ?thesis by blast
qed

lemma compute_model_based_orders_result:
  assumes "compute_model_based_orders loads dumps tp od mid td lag bq th mp = Inr (os, out)"
  shows "\<exists>kvs0 xs kvs. load_model_history loads td = Inr (JObj kvs0)
           \<and> map_of kvs0 ''model_history'' = Some (JArr xs)
           \<and> kvs = AList.update ''model_history'' (JArr (xs @ [JNum mid])) kvs0
           \<and> ((os = [] \<and> out = dumps (JObj kvs))
              \<or> (\<exists>ord. os = [ord]
                    \<and> out = dumps (JObj (AList.update ''position'' (JNum (real_of_int mp)) kvs)))
              \<or> (\<exists>ord. os = [ord]
                    \<and> out = dumps (JObj (AList.update ''position'' (JNum (- real_of_int mp)) kvs))))"
proof (cases "load_model_history loads td")
  case (Inl e)
  with assms show ?thesis by (simp add: compute_model_based_orders_def)
next
  case h0: (Inr h0)
  show ?thesis
  proof (cases "append_at h0 ''model_history'' (JNum mid)")
    case (Inl e)
    with h0 assms show ?thesis by (simp add: compute_model_based_orders_def)
  next
    case (Inr r)
    obtain ys h' where r: "r = (ys, h')" by (cases r)
    from append_at_result [OF Inr [unfolded r]] obtain kvs0 xs where
      k: "h0 = JObj kvs0" "map_of kvs0 ''model_history'' = Some (JArr xs)"
        "h' = JObj (AList.update ''model_history'' (JArr (xs @ [JNum mid])) kvs0)"
      by blast
    define kvs where "kvs = AList.update ''model_history'' (JArr (xs @ [JNum mid])) kvs0"
    have "(os = [] \<and> out = dumps (JObj kvs))
          \<or> (\<exists>dev. model_decision dumps tp od (JObj kvs) dev bq th mp = Inr (os, out))"
      using assms h0 Inr r k(3) kvs_def
      by (simp add: compute_model_based_orders_def split: if_splits sum.splits) blast
    then have "(os = [] \<and> out = dumps (JObj kvs))
              \<or> (\<exists>ord. os = [ord]
                    \<and> out = dumps (JObj (AList.update ''position'' (JNum (real_of_int mp)) kvs)))
              \<or> (\<exists>ord. os = [ord]
                    \<and> out = dumps (JObj (AList.update ''position'' (JNum (- real_of_int mp)) kvs)))"
    proof
      assume "os = [] \<and> out = dumps (JObj kvs)"
      then show ?thesis by simp
    next
      assume "\<exists>dev. model_decision dumps tp od (JObj kvs) dev bq th mp = Inr (os, out)"
      then obtain dev where "model_decision dumps tp od (JObj kvs) dev bq th mp = Inr (os, out)" ..
      then show ?thesis by (rule model_decision_result)
    qed
    with h0 k(1,2) kvs_def show ?thesis by blast
  qed
qed

text \<open>
  C3. On a state text that is a JSON object, the dict a strategy call writes back
  agrees with the dict it read on every top-level key the strategy does not own:
  \<open>rainforest_prices\<close> for the mean-reversion strategy; \<open>model_history\<close>, \<open>position\<close>
  and \<open>model_params\<close> for the autoregressive one. Such a key is neither added, removed
  nor given another value.
\<close>

theorem unknown_keys_survive:
  "(loads td = Some (JObj kvs)
      \<and> compute_rainforest_orders loads dumps tp od mid td window_size bq = Inr (os, out) \<longrightarrow>
    (\<exists>kvs'. out = dumps (JObj kvs')
       \<and> (\<forall>k. k \<noteq> ''rainforest_prices'' \<longrightarrow> map_of kvs' k = map_of kvs k)))
   \<and> (loads td = Some (JObj kvs)
      \<and> compute_model_based_orders loads dumps tp od mid td lag bq th mp = Inr (os, out) \<longrightarrow>
    (\<exists>kvs'. out = dumps (JObj kvs')
       \<and> (\<forall>k. k \<notin> {''model_history'', ''position'', ''model_params''} \<longrightarrow>
              map_of kvs' k = map_of kvs k)))"
proof (intro conjI impI)
  assume a: "loads td = Some (JObj kvs)
      \<and> compute_rainforest_orders loads dumps tp od mid td window_size bq = Inr (os, out)"
  then have parsed: "loads td = Some (JObj kvs)"
    and returned: "compute_rainforest_orders loads dumps tp od mid td window_size bq = Inr (os, out)"
    by simp_all
  from load_rainforest_history_frame [where loads = loads and td = td, OF parsed]
  obtain kvs0 where l: "load_rainforest_history loads td = JObj kvs0"
    "\<forall>k. k \<noteq> ''rainforest_prices'' \<longrightarrow> map_of kvs0 k = map_of kvs k"
    by blast
  from compute_rainforest_orders_result [OF returned] l(1) obtain xs where
    "out = dumps (JObj (AList.update ''rainforest_prices'' (JArr (xs @ [JNum mid])) kvs0))"
    by auto
  moreover have "\<forall>k. k \<noteq> ''rainforest_prices'' \<longrightarrow>
      map_of (AList.update ''rainforest_prices'' (JArr (xs @ [JNum mid])) kvs0) k = map_of kvs k"
    using l(2) by (simp add: map_of_update_other)
  ultimately show "\<exists>kvs'. out = dumps (JObj kvs')
       \<and> (\<forall>k. k \<noteq> ''rainforest_prices'' \<longrightarrow> map_of kvs' k = map_of kvs k)"
    by blast
next
  assume a: "loads td = Some (JObj kvs)
      \<and> compute_model_based_orders loads dumps tp od mid td lag bq th mp = Inr (os, out)"
  then have parsed: "loads td = Some (JObj kvs)"
    and returned: "compute_model_based_orders loads dumps tp od mid td lag bq th mp = Inr (os, out)"
    by simp_all
  from load_model_history_frame [where loads = loads and td = td, OF parsed]
  obtain kvs0 where l: "load_model_history loads td = Inr (JObj kvs0)
           \<and> (\<forall>k. k \<notin> {''model_history'', ''position'', ''model_params''} \<longrightarrow>
                  map_of kvs0 k = map_of kvs k)
           \<and> (\<forall>k w. map_of kvs k = Some w \<longrightarrow> map_of kvs0 k = Some w)" ..
  from compute_model_based_orders_result [OF returned]
  obtain kvs0' xs kvs1 where res: "load_model_history loads td = Inr (JObj kvs0')
           \<and> map_of kvs0' ''model_history'' = Some (JArr xs)
           \<and> kvs1 = AList.update ''model_history'' (JArr (xs @ [JNum mid])) kvs0'
           \<and> ((os = [] \<and> out = dumps (JObj kvs1))
              \<or> (\<exists>ord. os = [ord]
                    \<and> out = dumps (JObj (AList.update ''position'' (JNum (real_of_int mp)) kvs1)))
              \<or> (\<exists>ord. os = [ord]
                    \<and> out = dumps (JObj (AList.update ''position'' (JNum (- real_of_int mp)) kvs1))))"
    by (elim exE) (rule that)
  from res l have same: "kvs0' = kvs0" by simp
  have f0: "map_of kvs0 k = map_of kvs k"
    if "k \<notin> {''model_history'', ''position'', ''model_params''}" for k
    using l that by simp
  have f1: "map_of kvs1 k = map_of kvs k"
    if "k \<notin> {''model_history'', ''position'', ''model_params''}" for k
    using res same f0 [OF that] that by (simp add: map_of_update_other)
  have f2: "map_of (AList.update ''position'' q kvs1) k = map_of kvs k"
    if "k \<notin> {''model_history'', ''position'', ''model_params''}" for k q
    using f1 [OF that] that by (simp add: map_of_update_other)
  from res have "out = dumps (JObj kvs1)
      \<or> out = dumps (JObj (AList.update ''position'' (JNum (real_of_int mp)) kvs1))
      \<or> out = dumps (JObj (AList.update ''position'' (JNum (- real_of_int mp)) kvs1))"
    by (elim conjE disjE exE) simp_all
  then show "\<exists>kvs'. out = dumps (JObj kvs')
       \<and> (\<forall>k. k \<notin> {''model_history'', ''position'', ''model_params''} \<longrightarrow>
              map_of kvs' k = map_of kvs k)"
  proof (elim disjE)
    assume "out = dumps (JObj kvs1)"
    with f1 show ?thesis by (intro exI [of _ kvs1]) simp
  next
    assume "out = dumps (JObj (AList.update ''position'' (JNum (real_of_int mp)) kvs1))"
    with f2 show ?thesis
      by (intro exI [of _ "AList.update ''position'' (JNum (real_of_int mp)) kvs1"]) simp
  next
    assume "out = dumps (JObj (AList.update ''position'' (JNum (- real_of_int mp)) kvs1))"
    with f2 show ?thesis
      by (intro exI [of _ "AList.update ''position'' (JNum (- real_of_int mp)) kvs1"]) simp
  qed
qed

theorem unknown_keys_survive_witness:
  "(\<exists>kvs'. compute_rainforest_orders (\<lambda>b. b) Some ''RAINFOREST_RESIN''
       \<lparr>buy_orders = [(9998, 5)], sell_orders = [(10002, - 4)]\<rparr> 10000
       (Some (JObj [(''harness'', JStr ''v1''), (''rainforest_prices'', JArr [JNum 9999])])) 20 10
       = Inr ([], Some (JObj kvs'))
     \<and> map_of kvs' ''harness'' = Some (JStr ''v1''))
   \<and> (\<exists>kvs'. compute_model_based_orders (\<lambda>b. b) Some ''RAINFOREST_RESIN''
       \<lparr>buy_orders = [(9998, 5)], sell_orders = [(10002, - 4)]\<rparr> 10000
       (Some (JObj [(''harness'', JStr ''v1'')])) 4 10 1 50
       = Inr ([], Some (JObj kvs'))
     \<and> map_of kvs' ''harness'' = Some (JStr ''v1''))"
proof -
  have r1: "compute_rainforest_orders (\<lambda>b. b) Some ''RAINFOREST_RESIN''
       \<lparr>buy_orders = [(9998, 5)], sell_orders = [(10002, - 4)]\<rparr> 10000
       (Some (JObj [(''harness'', JStr ''v1''), (''rainforest_prices'', JArr [JNum 9999])])) 20 10
       = Inr ([], Some (JObj [(''harness'', JStr ''v1''),
                              (''rainforest_prices'', JArr [JNum 9999, JNum 10000])]))"
    by (simp add: compute_rainforest_orders_def load_rainforest_history_def append_at_def)
  have r2: "compute_model_based_orders (\<lambda>b. b) Some ''RAINFOREST_RESIN''
       \<lparr>buy_orders = [(9998, 5)], sell_orders = [(10002, - 4)]\<rparr> 10000
       (Some (JObj [(''harness'', JStr ''v1'')])) 4 10 1 50
       = Inr ([], Some (JObj [(''harness'', JStr ''v1''), (''model_history'', JArr [JNum 10000]),
                              (''position'', JNum 0), (''model_params'', default_model_params)]))"
    by (simp add: compute_model_based_orders_def load_model_history_def init_key_def
        append_at_def)
  from unknown_keys_survive
    [where loads = "\<lambda>b. b" and dumps = Some
       and td = "Some (JObj [(''harness'', JStr ''v1''), (''rainforest_prices'', JArr [JNum 9999])])"
       and kvs = "[(''harness'', JStr ''v1''), (''rainforest_prices'', JArr [JNum 9999])]"
       and tp = "''RAINFOREST_RESIN''"
       and od = "\<lparr>buy_orders = [(9998, 5)], sell_orders = [(10002, - 4)]\<rparr>"
       and mid = 10000 and window_size = 20 and bq = 10 and os = "[]"
       and out = "Some (JObj [(''harness'', JStr ''v1''),
                              (''rainforest_prices'', JArr [JNum 9999, JNum 10000])])",
     THEN conjunct1] r1
  have w1: "\<exists>kvs'. Some (JObj [(''harness'', JStr ''v1''),
                              (''rainforest_prices'', JArr [JNum 9999, JNum 10000])])
                = Some (JObj kvs')
       \<and> (\<forall>k. k \<noteq> ''rainforest_prices'' \<longrightarrow>
             map_of kvs' k
               = map_of [(''harness'', JStr ''v1''), (''rainforest_prices'', JArr [JNum 9999])] k)"
    by simp
  from unknown_keys_survive
    [where loads = "\<lambda>b. b" and dumps = Some
       and td = "Some (JObj [(''harness'', JStr ''v1'')])"
       and kvs = "[(''harness'', JStr ''v1'')]"
       and tp = "''RAINFOREST_RESIN''"
       and od = "\<lparr>buy_orders = [(9998, 5)], sell_orders = [(10002, - 4)]\<rparr>"
       and mid = 10000 and lag = 4 and bq = 10 and th = 1 and mp = 50 and os = "[]"
       and out = "Some (JObj [(''harness'', JStr ''v1''), (''model_history'', JArr [JNum 10000]),
                              (''position'', JNum 0), (''model_params'', default_model_params)])",
     THEN conjunct2] r2
  have w2: "\<exists>kvs'. Some (JObj [(''harness'', JStr ''v1''), (''model_history'', JArr [JNum 10000]),
                              (''position'', JNum 0), (''model_params'', default_model_params)])
                = Some (JObj kvs')
       \<and> (\<forall>k. k \<notin> {''model_history'', ''position'', ''model_params''} \<longrightarrow>
             map_of kvs' k = map_of [(''harness'', JStr ''v1'')] k)"
    by simp
  from w1 r1 have "\<exists>kvs'. compute_rainforest_orders (\<lambda>b. b) Some ''RAINFOREST_RESIN''
       \<lparr>buy_orders = [(9998, 5)], sell_orders = [(10002, - 4)]\<rparr> 10000
       (Some (JObj [(''harness'', JStr ''v1''), (''rainforest_prices'', JArr [JNum 9999])])) 20 10
       = Inr ([], Some (JObj kvs'))
     \<and> map_of kvs' ''harness'' = Some (JStr ''v1'')"
    by auto
  moreover from w2 r2 have "\<exists>kvs'. compute_model_based_orders (\<lambda>b. b) Some ''RAINFOREST_RESIN''
       \<lparr>buy_orders = [(9998, 5)], sell_orders = [(10002, - 4)]\<rparr> 10000
       (Some (JObj [(''harness'', JStr ''v1'')])) 4 10 1 50
       = Inr ([], Some (JObj kvs'))
     \<and> map_of kvs' ''harness'' = Some (JStr ''v1'')"
    by auto
  ultimately show ?thesis by (rule conjI)
qed

subsection \<open>Signals\<close>

lemma model_decision_hold:
  "\<bar>dev\<bar> \<le> th \<Longrightarrow> model_decision dumps tp od history dev bq th mp = Inr ([], dumps history)"
  by (simp add: model_decision_def)






subsection \<open>The stored position\<close>

lemma load_model_history_malformed:
  "loads td = None \<Longrightarrow>
   load_model_history loads td =
     Inr (JObj [(''model_history'', JArr []), (''position'', JNum 0),
                (''model_params'', default_model_params)])"
  by (simp add: load_model_history_def init_key_def)

lemma position_after_call:
  assumes bound: "0 \<le> mp"
    and loaded: "load_model_history loads td = Inr (JObj kvs0)"
    and stored: "map_of kvs0 ''position'' = Some (JNum q)" "- real_of_int mp \<le> q" "q \<le> real_of_int mp"
    and returned: "compute_model_based_orders loads dumps tp od mid td lag bq th mp = Inr (os, out)"
  shows "\<exists>kvs' q'. out = dumps (JObj kvs') \<and> map_of kvs' ''position'' = Some (JNum q')
           \<and> - real_of_int mp \<le> q' \<and> q' \<le> real_of_int mp"
proof -
  from compute_model_based_orders_result [OF returned]
  obtain kvs0' xs kvs1 where res: "load_model_history loads td = Inr (JObj kvs0')
           \<and> map_of kvs0' ''model_history'' = Some (JArr xs)
           \<and> kvs1 = AList.update ''model_history'' (JArr (xs @ [JNum mid])) kvs0'
           \<and> ((os = [] \<and> out = dumps (JObj kvs1))
              \<or> (\<exists>ord. os = [ord]
                    \<and> out = dumps (JObj (AList.update ''position'' (JNum (real_of_int mp)) kvs1)))
              \<or> (\<exists>ord. os = [ord]
                    \<and> out = dumps (JObj (AList.update ''position'' (JNum (- real_of_int mp)) kvs1))))"
    by (elim exE) (rule that)
  from res loaded have same: "kvs0' = kvs0" by simp
  have kept: "map_of kvs1 ''position'' = Some (JNum q)"
    using res same stored(1) by (simp add: map_of_update_other)
  from res have "out = dumps (JObj kvs1)
      \<or> out = dumps (JObj (AList.update ''position'' (JNum (real_of_int mp)) kvs1))
      \<or> out = dumps (JObj (AList.update ''position'' (JNum (- real_of_int mp)) kvs1))"
    by (elim conjE disjE exE) simp_all
  then show ?thesis
  proof (elim disjE)
    assume "out = dumps (JObj kvs1)"
    with kept stored(2,3) show ?thesis
      by (intro exI [of _ kvs1] exI [of _ q]) simp
  next
    assume "out = dumps (JObj (AList.update ''position'' (JNum (real_of_int mp)) kvs1))"
    with bound show ?thesis
      by (intro exI [of _ "AList.update ''position'' (JNum (real_of_int mp)) kvs1"]
          exI [of _ "real_of_int mp"]) (simp add: map_of_update_same)
  next
    assume "out = dumps (JObj (AList.update ''position'' (JNum (- real_of_int mp)) kvs1))"
    with bound show ?thesis
      by (intro exI [of _ "AList.update ''position'' (JNum (- real_of_int mp)) kvs1"]
          exI [of _ "- real_of_int mp"]) (simp add: map_of_update_same)
  qed
qed

lemma position_after_first_call:
  assumes "0 \<le> mp" and "loads td = None"
    and "compute_model_based_orders loads dumps tp od mid td lag bq th mp = Inr (os, out)"
  shows "\<exists>kvs' q'. out = dumps (JObj kvs') \<and> map_of kvs' ''position'' = Some (JNum q')
           \<and> - real_of_int mp \<le> q' \<and> q' \<le> real_of_int mp"
proof -
  have loaded: "load_model_history loads td =
     Inr (JObj [(''model_history'', JArr []), (''position'', JNum 0),
                (''model_params'', default_model_params)])"
    using assms(2) by (rule load_model_history_malformed)
  have stored: "map_of [(''model_history'', JArr []), (''position'', JNum 0),
                (''model_params'', default_model_params)] ''position'' = Some (JNum 0)"
    by simp
  have below: "- real_of_int mp \<le> 0" and above: "0 \<le> real_of_int mp"
    using assms(1) by simp_all
  from assms(1) loaded stored below above assms(3) show ?thesis
    by (rule position_after_call)
qed

lemma position_after_later_call:
  assumes "0 \<le> mp" and "loads td = Some (JObj kvs)"
    and "map_of kvs ''position'' = Some (JNum q)"
    and "- real_of_int mp \<le> q" and "q \<le> real_of_int mp"
    and "compute_model_based_orders loads dumps tp od mid td lag bq th mp = Inr (os, out)"
  shows "\<exists>kvs' q'. out = dumps (JObj kvs') \<and> map_of kvs' ''position'' = Some (JNum q')
           \<and> - real_of_int mp \<le> q' \<and> q' \<le> real_of_int mp"
proof -
  from load_model_history_frame [where loads = loads and td = td, OF assms(2)]
  obtain kvs0 where l: "load_model_history loads td = Inr (JObj kvs0)
           \<and> (\<forall>k. k \<notin> {''model_history'', ''position'', ''model_params''} \<longrightarrow>
                  map_of kvs0 k = map_of kvs k)
           \<and> (\<forall>k w. map_of kvs k = Some w \<longrightarrow> map_of kvs0 k = Some w)" ..
  then have "map_of kvs0 ''position'' = Some (JNum q)"
    using assms(3) by simp
  with assms(1) l [THEN conjunct1] show ?thesis
    using assms(4,5,6) by (rule position_after_call)
qed

text \<open>
  C7. With \<open>max_position\<close> not negative and \<open>json.loads\<close> reading back what \<open>json.dumps\<close>
  wrote, every state the autoregressive strategy reaches from the default-initialised
  state stores a position between \<open>-max_position\<close> and \<open>max_position\<close>; and any call
  on a state whose position is within the bound returns a state whose position is
  within it.
\<close>

theorem position_stays_within_max_position:
  assumes "0 \<le> max_position" and "\<And>h. loads (dumps h) = Some h"
  shows "(reachable loads dumps max_position td \<longrightarrow>
            (\<exists>kvs q. loads td = Some (JObj kvs) \<and> map_of kvs ''position'' = Some (JNum q)
               \<and> - real_of_int max_position \<le> q \<and> q \<le> real_of_int max_position))
         \<and> ((\<exists>kvs q. loads td = Some (JObj kvs) \<and> map_of kvs ''position'' = Some (JNum q)
               \<and> - real_of_int max_position \<le> q \<and> q \<le> real_of_int max_position)
             \<and> compute_model_based_orders loads dumps tp od mid td lag bq th max_position
                 = Inr (os, out) \<longrightarrow>
            (\<exists>kvs' q'. loads out = Some (JObj kvs') \<and> map_of kvs' ''position'' = Some (JNum q')
               \<and> - real_of_int max_position \<le> q' \<and> q' \<le> real_of_int max_position))"
proof (intro conjI impI)
  have read_back: "\<exists>kvs' q'. loads out' = Some (JObj kvs') \<and> map_of kvs' ''position'' = Some (JNum q')
               \<and> - real_of_int max_position \<le> q' \<and> q' \<le> real_of_int max_position"
    if "\<exists>kvs' q'. out' = dumps (JObj kvs') \<and> map_of kvs' ''position'' = Some (JNum q')
           \<and> - real_of_int max_position \<le> q' \<and> q' \<le> real_of_int max_position" for out'
  proof -
    from that obtain kvs' q' where o: "out' = dumps (JObj kvs')"
      and p: "map_of kvs' ''position'' = Some (JNum q')"
        "- real_of_int max_position \<le> q'" "q' \<le> real_of_int max_position"
      by (elim exE conjE)
    have "loads out' = Some (JObj kvs')"
      unfolding o by (rule assms(2))
    with p show ?thesis by (intro exI [of _ kvs'] exI [of _ q']) simp
  qed
  {
    assume "reachable loads dumps max_position td"
    then show "\<exists>kvs q. loads td = Some (JObj kvs) \<and> map_of kvs ''position'' = Some (JNum q)
               \<and> - real_of_int max_position \<le> q \<and> q \<le> real_of_int max_position"
    proof (induction rule: reachable.induct)
      case (first_cycle trader_data product order_depth mid_price lag base_quantity threshold
          orders new_trader_data)
      from assms(1) first_cycle(1,2) show ?case
        by (intro read_back) (rule position_after_first_call)
    next
      case (next_cycle trader_data product order_depth mid_price lag base_quantity threshold
          orders new_trader_data)
      from next_cycle(3) obtain kvs q where
        s: "loads trader_data = Some (JObj kvs)" "map_of kvs ''position'' = Some (JNum q)"
          "- real_of_int max_position \<le> q" "q \<le> real_of_int max_position"
        by (elim exE conjE)
      from assms(1) s next_cycle(2) show ?case
        by (intro read_back) (rule position_after_later_call)
    qed
  }
  {
    assume a: "(\<exists>kvs q. loads td = Some (JObj kvs) \<and> map_of kvs ''position'' = Some (JNum q)
               \<and> - real_of_int max_position \<le> q \<and> q \<le> real_of_int max_position)
             \<and> compute_model_based_orders loads dumps tp od mid td lag bq th max_position
                 = Inr (os, out)"
    then obtain kvs q where
      s: "loads td = Some (JObj kvs)" "map_of kvs ''position'' = Some (JNum q)"
        "- real_of_int max_position \<le> q" "q \<le> real_of_int max_position"
      and r: "compute_model_based_orders loads dumps tp od mid td lag bq th max_position
                 = Inr (os, out)"
      by (elim exE conjE)
    from assms(1) s r
    show "\<exists>kvs' q'. loads out = Some (JObj kvs') \<and> map_of kvs' ''position'' = Some (JNum q')
               \<and> - real_of_int max_position \<le> q' \<and> q' \<le> real_of_int max_position"
      by (intro read_back) (rule position_after_later_call)
  }
qed

theorem position_stays_within_max_position_witness:
  "reachable (\<lambda>b. b) Some 50
       (Some (JObj [(''model_history'', JArr [JNum 10000]), (''position'', JNum 0),
                    (''model_params'', default_model_params)]))
   \<and> (\<exists>kvs q. (Some (JObj [(''model_history'', JArr [JNum 10000]), (''position'', JNum 0),
                    (''model_params'', default_model_params)])) = Some (JObj kvs)
         \<and> map_of kvs ''position'' = Some (JNum q) \<and> - real_of_int 50 \<le> q \<and> q \<le> real_of_int 50)
   \<and> compute_model_based_orders (\<lambda>b. b) Some ''RAINFOREST_RESIN''
       \<lparr>buy_orders = [(99, 5)], sell_orders = [(101, - 3), (103, - 5)]\<rparr> 100
       (Some (JObj [(''model_history'', JArr [JNum 100, JNum 100, JNum 100]),
                    (''position'', JNum 0),
                    (''model_params'', JObj [(''intercept'', JNum 2),
                       (''coefficients'', JArr [JNum 0, JNum 0, JNum 0, JNum 1])])])) 4 10 1 50
     = Inr ([\<lparr>symbol = ''RAINFOREST_RESIN'', price = 101, quantity = 50\<rparr>],
            (Some (JObj [(''model_history'', JArr [JNum 100, JNum 100, JNum 100, JNum 100]),
                    (''position'', JNum 50),
                    (''model_params'', JObj [(''intercept'', JNum 2),
                       (''coefficients'', JArr [JNum 0, JNum 0, JNum 0, JNum 1])])])))
   \<and> (\<exists>kvs' q'. (Some (JObj [(''model_history'', JArr [JNum 100, JNum 100, JNum 100, JNum 100]),
                    (''position'', JNum 50),
                    (''model_params'', JObj [(''intercept'', JNum 2),
                       (''coefficients'', JArr [JNum 0, JNum 0, JNum 0, JNum 1])])])) = Some (JObj kvs')
         \<and> map_of kvs' ''position'' = Some (JNum q')
         \<and> - real_of_int 50 \<le> q' \<and> q' \<le> real_of_int 50)"
proof -
  have nonneg: "(0::int) \<le> 50" by simp
  note inv = position_stays_within_max_position
    [where loads = "\<lambda>b. b" and dumps = Some, OF nonneg refl]
  have first: "compute_model_based_orders (\<lambda>b. b) Some ''RAINFOREST_RESIN''
       \<lparr>buy_orders = [(99, 5)], sell_orders = [(101, - 3), (103, - 5)]\<rparr> 10000 None 4 10 1 50
     = Inr ([], (Some (JObj [(''model_history'', JArr [JNum 10000]), (''position'', JNum 0),
                    (''model_params'', default_model_params)])))"
    by (simp add: compute_model_based_orders_def load_model_history_def init_key_def
        append_at_def)
  have reach: "reachable (\<lambda>b. b) Some 50
       (Some (JObj [(''model_history'', JArr [JNum 10000]), (''position'', JNum 0),
                    (''model_params'', default_model_params)]))"
    by (rule reachable.first_cycle [where trader_data = None, OF _ first]) simp
  have later: "compute_model_based_orders (\<lambda>b. b) Some ''RAINFOREST_RESIN''
       \<lparr>buy_orders = [(99, 5)], sell_orders = [(101, - 3), (103, - 5)]\<rparr> 100
       (Some (JObj [(''model_history'', JArr [JNum 100, JNum 100, JNum 100]),
                    (''position'', JNum 0),
                    (''model_params'', JObj [(''intercept'', JNum 2),
                       (''coefficients'', JArr [JNum 0, JNum 0, JNum 0, JNum 1])])])) 4 10 1 50
     = Inr ([\<lparr>symbol = ''RAINFOREST_RESIN'', price = 101, quantity = 50\<rparr>],
            (Some (JObj [(''model_history'', JArr [JNum 100, JNum 100, JNum 100, JNum 100]),
                    (''position'', JNum 50),
                    (''model_params'', JObj [(''intercept'', JNum 2),
                       (''coefficients'', JArr [JNum 0, JNum 0, JNum 0, JNum 1])])])))"
    by (simp add: compute_model_based_orders_def load_model_history_def init_key_def
        append_at_def last_n_def predict_def py_product_def model_decision_def
        model_order_quantity_def double_overflow_def py_float_def min_key_def)
  have stored: "\<exists>kvs q. (Some (JObj [(''model_history'', JArr [JNum 100, JNum 100, JNum 100]),
                    (''position'', JNum 0),
                    (''model_params'', JObj [(''intercept'', JNum 2),
                       (''coefficients'', JArr [JNum 0, JNum 0, JNum 0, JNum 1])])])) = Some (JObj kvs)
         \<and> map_of kvs ''position'' = Some (JNum q) \<and> - real_of_int 50 \<le> q \<and> q \<le> real_of_int 50"
    by simp
  from inv [THEN conjunct1, rule_format, OF reach]
  have c1: "\<exists>kvs q. (Some (JObj [(''model_history'', JArr [JNum 10000]), (''position'', JNum 0),
                    (''model_params'', default_model_params)])) = Some (JObj kvs)
         \<and> map_of kvs ''position'' = Some (JNum q) \<and> - real_of_int 50 \<le> q \<and> q \<le> real_of_int 50" .
  from inv [THEN conjunct2, rule_format, OF conjI [OF stored later]]
  have c2: "\<exists>kvs' q'. (Some (JObj [(''model_history'', JArr [JNum 100, JNum 100, JNum 100, JNum 100]),
                    (''position'', JNum 50),
                    (''model_params'', JObj [(''intercept'', JNum 2),
                       (''coefficients'', JArr [JNum 0, JNum 0, JNum 0, JNum 1])])])) = Some (JObj kvs')
         \<and> map_of kvs' ''position'' = Some (JNum q')
         \<and> - real_of_int 50 \<le> q' \<and> q' \<le> real_of_int 50" .
  from reach c1 later c2 show ?thesis by (intro conjI)
qed

subsection \<open>A flat price\<close>

lemma last_n_snoc_full:
  assumes "0 < w" and "w \<le> length xs" and "\<forall>x\<in>set (last_n w xs). x = a"
  shows "last_n w (xs @ [a]) = replicate w a"
proof (rule replicate_eqI)
  show "length (last_n w (xs @ [a])) = w"
    using assms(1,2) by (simp add: last_n_def)
next
  fix y
  assume "y \<in> set (last_n w (xs @ [a]))"
  then have "y \<in> set (drop (Suc (length xs) - w) xs) \<or> y = a"
    using assms(1,2) by (auto simp: last_n_def)
  moreover have "set (drop (Suc (length xs) - w) xs) \<subseteq> set (drop (length xs - w) xs)"
    by (rule set_drop_subset_set_drop) simp
  ultimately show "y = a"
    using assms(1,3) by (auto simp: last_n_def)
qed

lemma py_numbers_replicate: "py_numbers (replicate n (JNum p)) = Some (replicate n p)"
  by (induction n) (simp_all add: py_numbers_def)

lemma flat_window_z_score:
  assumes "0 < w"
  shows "z_score p (rolling_mean (replicate w p) w) (rolling_std (replicate w p) w) = 0"
proof -
  have mean: "rolling_mean (replicate w p) w = p"
    using assms by (simp add: rolling_mean_def sum_list_replicate)
  have "map (\<lambda>q. (q - p)\<^sup>2) (replicate w p) = replicate w 0"
    by simp
  then have "rolling_std (replicate w p) w = 0"
    by (simp add: rolling_std_def mean sum_list_replicate)
  then show ?thesis by (simp add: z_score_def)
qed

lemma rainforest_signal_zero: "rainforest_signal tp od bq 0 = []"
  by (simp add: rainforest_signal_def)

lemma rainforest_flat_step:
  assumes "loads td = Some (JObj kvs)"
    and "map_of kvs ''rainforest_prices'' = Some (JArr xs)"
    and "0 < w" and "w \<le> length xs"
    and "\<forall>x\<in>set (last_n w xs). x = JNum p"
  shows "compute_rainforest_orders loads dumps tp od p td w bq =
           Inr ([], dumps (JObj (AList.update ''rainforest_prices'' (JArr (xs @ [JNum p])) kvs)))"
proof -
  have "''rainforest_prices'' \<in> fst ` set kvs"
    using assms(2) by (simp add: key_in_dict)
  with assms(1) have loaded: "load_rainforest_history loads td = JObj kvs"
    by (simp add: load_rainforest_history_obj)
  have window: "last_n w (xs @ [JNum p]) = replicate w (JNum p)"
    using assms(3,4,5) by (rule last_n_snoc_full)
  have numbers: "py_numbers (last_n w (xs @ [JNum p])) = Some (replicate w p)"
    by (simp add: window py_numbers_replicate)
  have len: "w \<le> length xs + 1" using assms(4) by simp
  have "compute_rainforest_orders loads dumps tp od p td w bq =
           Inr (rainforest_signal tp od bq
                  (z_score p (rolling_mean (replicate w p) w) (rolling_std (replicate w p) w)),
                dumps (JObj (AList.update ''rainforest_prices'' (JArr (xs @ [JNum p])) kvs)))"
    using loaded assms(2) len assms(3) numbers by (rule compute_rainforest_orders_full)
  then show ?thesis
    using assms(3) by (simp add: flat_window_z_score rainforest_signal_zero)
qed

lemma rainforest_flat_cycles:
  assumes roundtrip: "\<And>h. loads (dumps h) = Some h" and "0 < w"
  shows "loads td = Some (JObj kvs) \<Longrightarrow>
         map_of kvs ''rainforest_prices'' = Some (JArr xs) \<Longrightarrow>
         w \<le> length xs \<Longrightarrow>
         \<forall>x\<in>set (last_n w xs). x = JNum p \<Longrightarrow>
         \<exists>out kvs'. repeat_cycles (\<lambda>od b. compute_rainforest_orders loads dumps tp od p b w bq) ods td
                       = Inr ([], out)
           \<and> loads out = Some (JObj kvs')
           \<and> (\<forall>k. k \<noteq> ''rainforest_prices'' \<longrightarrow> map_of kvs' k = map_of kvs k)"
proof (induction ods arbitrary: td kvs xs)
  case Nil
  then show ?case by simp
next
  case (Cons od ods)
  define kvs1 where "kvs1 = AList.update ''rainforest_prices'' (JArr (xs @ [JNum p])) kvs"
  have step: "compute_rainforest_orders loads dumps tp od p td w bq = Inr ([], dumps (JObj kvs1))"
    unfolding kvs1_def using Cons.prems(1,2) assms(2) Cons.prems(3,4)
    by (rule rainforest_flat_step)
  have read: "loads (dumps (JObj kvs1)) = Some (JObj kvs1)"
    by (rule roundtrip)
  have stored: "map_of kvs1 ''rainforest_prices'' = Some (JArr (xs @ [JNum p]))"
    by (simp add: kvs1_def map_of_update_same)
  have long: "w \<le> length (xs @ [JNum p])"
    using Cons.prems(3) by simp
  have "last_n w (xs @ [JNum p]) = replicate w (JNum p)"
    using assms(2) Cons.prems(3,4) by (rule last_n_snoc_full)
  then have flat: "\<forall>x\<in>set (last_n w (xs @ [JNum p])). x = JNum p"
    by simp
  from Cons.IH [OF read stored long flat]
  obtain out kvs' where rest:
    "repeat_cycles (\<lambda>od b. compute_rainforest_orders loads dumps tp od p b w bq) ods
        (dumps (JObj kvs1)) = Inr ([], out)"
    "loads out = Some (JObj kvs')"
    "\<forall>k. k \<noteq> ''rainforest_prices'' \<longrightarrow> map_of kvs' k = map_of kvs1 k"
    by (elim exE conjE)
  have "repeat_cycles (\<lambda>od b. compute_rainforest_orders loads dumps tp od p b w bq) (od # ods) td
          = Inr ([], out)"
    by (simp add: step rest(1))
  moreover have "\<forall>k. k \<noteq> ''rainforest_prices'' \<longrightarrow> map_of kvs' k = map_of kvs k"
    using rest(3) by (simp add: kvs1_def map_of_update_other)
  ultimately show ?case
    using rest(2) by (intro exI [of _ out] exI [of _ kvs']) simp
qed

lemma load_model_history_complete:
  assumes "loads td = Some (JObj kvs)"
    and "map_of kvs ''model_history'' = Some a" and "map_of kvs ''position'' = Some b"
    and "map_of kvs ''model_params'' = Some c"
  shows "load_model_history loads td = Inr (JObj kvs)"
  using assms by (simp add: load_model_history_def init_key_obj key_in_dict)

lemma predict_flat:
  "predict (JNum 0.39903304835706876)
     (JArr [JNum 0.81988331, JNum 0.1248814, JNum 0.07095404, JNum (- 0.01592438)])
     (replicate 4 (JNum p)) = Inr (0.39903304835706876 + 0.99979437 * p)"
  by (simp add: predict_def py_product_def numeral_eq_Suc algebra_simps)

lemma model_flat_step:
  assumes "loads td = Some (JObj kvs)"
    and "map_of kvs ''model_history'' = Some (JArr xs)"
    and "4 \<le> length xs" and "\<forall>x\<in>set (last_n 4 xs). x = JNum p"
    and "map_of kvs ''model_params'' = Some default_model_params"
    and "map_of kvs ''position'' = Some v"
    and "\<bar>0.39903304835706876 - 0.00020563 * p\<bar> \<le> th"
  shows "compute_model_based_orders loads dumps tp od p td 4 bq th mp =
           Inr ([], dumps (JObj (AList.update ''model_history'' (JArr (xs @ [JNum p])) kvs)))"
proof -
  have loaded: "load_model_history loads td = Inr (JObj kvs)"
    using assms(1,2,6,5) by (rule load_model_history_complete)
  have window: "last_n 4 (xs @ [JNum p]) = replicate 4 (JNum p)"
    using _ assms(3,4) by (rule last_n_snoc_full) simp
  have params: "map_of kvs ''model_params'' =
      Some (JObj [(''intercept'', JNum 0.39903304835706876),
                  (''coefficients'',
                     JArr [JNum 0.81988331, JNum 0.1248814, JNum 0.07095404,
                           JNum (- 0.01592438)])])"
    using assms(5) by (simp add: default_model_params_def)
  have len: "4 \<le> length xs + 1" using assms(3) by simp
  have "compute_model_based_orders loads dumps tp od p td 4 bq th mp =
           model_decision dumps tp od
             (JObj (AList.update ''model_history'' (JArr (xs @ [JNum p])) kvs))
             (0.39903304835706876 + 0.99979437 * p - p) bq th mp"
    using loaded assms(2) len params
  proof (rule compute_model_based_orders_full)
    show "map_of [(''intercept'', JNum 0.39903304835706876),
                  (''coefficients'',
                     JArr [JNum 0.81988331, JNum 0.1248814, JNum 0.07095404,
                           JNum (- 0.01592438)])] ''intercept''
            = Some (JNum 0.39903304835706876)"
      by simp
    show "map_of [(''intercept'', JNum 0.39903304835706876),
                  (''coefficients'',
                     JArr [JNum 0.81988331, JNum 0.1248814, JNum 0.07095404,
                           JNum (- 0.01592438)])] ''coefficients''
            = Some (JArr [JNum 0.81988331, JNum 0.1248814, JNum 0.07095404,
                          JNum (- 0.01592438)])"
      by simp
    show "predict (JNum 0.39903304835706876)
            (JArr [JNum 0.81988331, JNum 0.1248814, JNum 0.07095404, JNum (- 0.01592438)])
            (last_n 4 (xs @ [JNum p])) = Inr (0.39903304835706876 + 0.99979437 * p)"
      unfolding window by (rule predict_flat)
  qed
  moreover have "0.39903304835706876 + 0.99979437 * p - p = 0.39903304835706876 - 0.00020563 * p"
    by (simp add: algebra_simps)
  ultimately show ?thesis
    using assms(7) by (simp add: model_decision_hold)
qed

lemma model_flat_cycles:
  assumes roundtrip: "\<And>h. loads (dumps h) = Some h"
    and quiet: "\<bar>0.39903304835706876 - 0.00020563 * p\<bar> \<le> th"
  shows "loads td = Some (JObj kvs) \<Longrightarrow>
         map_of kvs ''model_history'' = Some (JArr xs) \<Longrightarrow>
         4 \<le> length xs \<Longrightarrow>
         \<forall>x\<in>set (last_n 4 xs). x = JNum p \<Longrightarrow>
         map_of kvs ''model_params'' = Some default_model_params \<Longrightarrow>
         map_of kvs ''position'' = Some v \<Longrightarrow>
         \<exists>out kvs'. repeat_cycles (\<lambda>od b. compute_model_based_orders loads dumps tp od p b 4 bq th mp)
                       ods td = Inr ([], out)
           \<and> loads out = Some (JObj kvs')
           \<and> map_of kvs' ''position'' = Some v"
proof (induction ods arbitrary: td kvs xs)
  case Nil
  then show ?case by simp
next
  case (Cons od ods)
  define kvs1 where "kvs1 = AList.update ''model_history'' (JArr (xs @ [JNum p])) kvs"
  have step: "compute_model_based_orders loads dumps tp od p td 4 bq th mp
      = Inr ([], dumps (JObj kvs1))"
    unfolding kvs1_def using Cons.prems quiet by (rule model_flat_step)
  have read: "loads (dumps (JObj kvs1)) = Some (JObj kvs1)"
    by (rule roundtrip)
  have stored: "map_of kvs1 ''model_history'' = Some (JArr (xs @ [JNum p]))"
    by (simp add: kvs1_def map_of_update_same)
  have long: "4 \<le> length (xs @ [JNum p])"
    using Cons.prems(3) by simp
  have "last_n 4 (xs @ [JNum p]) = replicate 4 (JNum p)"
    using _ Cons.prems(3,4) by (rule last_n_snoc_full) simp
  then have flat: "\<forall>x\<in>set (last_n 4 (xs @ [JNum p])). x = JNum p"
    by simp
  have params: "map_of kvs1 ''model_params'' = Some default_model_params"
    using Cons.prems(5) by (simp add: kvs1_def map_of_update_other)
  have position: "map_of kvs1 ''position'' = Some v"
    using Cons.prems(6) by (simp add: kvs1_def map_of_update_other)
  from Cons.IH [OF read stored long flat params position]
  obtain out kvs' where rest:
    "repeat_cycles (\<lambda>od b. compute_model_based_orders loads dumps tp od p b 4 bq th mp) ods
        (dumps (JObj kvs1)) = Inr ([], out)"
    "loads out = Some (JObj kvs')"
    "map_of kvs' ''position'' = Some v"
    by (elim exE conjE)
  have "repeat_cycles (\<lambda>od b. compute_model_based_orders loads dumps tp od p b 4 bq th mp)
          (od # ods) td = Inr ([], out)"
    by (simp add: step rest(1))
  with rest(2,3) show ?case
    by (intro exI [of _ out] exI [of _ kvs']) simp
qed

text \<open>
  C2 (as amended). With \<open>json.loads\<close> reading back what \<open>json.dumps\<close> wrote and a
  history whose window is already full of the price \<open>p\<close>: any number of further calls
  of the mean-reversion strategy at mid-price \<open>p\<close>, for \<open>p\<close> up to \<open>10^9\<close> in absolute
  value, return no order and leave a stored position as it is; any number of further
  calls of the autoregressive strategy (lag 4, the default parameters stored, a
  threshold of at least 1.0) do the same for \<open>p\<close> from -2900 to 6800.

  The bounds keep the doubles of the code on the same side of every comparison as the
  reals here. For the autoregressive strategy the deviation at a flat price is
  \<open>0.39903304835706876 - 0.00020563 * p\<close>, between -0.9993 and 0.9954 on that range,
  and the float sum of line 168 is off by less than \<open>10^-11\<close> there. For the
  mean-reversion strategy the float mean of a flat window can miss \<open>p\<close> by a rounding
  error, which gives a z-score of about 1 or -1 where the exact one is 0, still inside
  the band of 1.5; only for prices beyond \<open>10^150\<close> can the square of line 85 leave the
  doubles.
\<close>

theorem flat_price_gives_no_signal:
  assumes "\<And>h. loads (dumps h) = Some h"
  shows "(loads td = Some (JObj kvs) \<and> map_of kvs ''rainforest_prices'' = Some (JArr xs)
            \<and> 0 < window_size \<and> window_size \<le> length xs
            \<and> (\<forall>x\<in>set (last_n window_size xs). x = JNum p)
            \<and> \<bar>p\<bar> \<le> 10 ^ 9 \<longrightarrow>
          (\<exists>out kvs'.
             repeat_cycles
               (\<lambda>od b. compute_rainforest_orders loads dumps tp od p b window_size bq) ods td
               = Inr ([], out)
             \<and> loads out = Some (JObj kvs')
             \<and> map_of kvs' ''position'' = map_of kvs ''position''))
         \<and> (loads td = Some (JObj kvs) \<and> map_of kvs ''model_history'' = Some (JArr xs)
            \<and> 4 \<le> length xs \<and> (\<forall>x\<in>set (last_n 4 xs). x = JNum p)
            \<and> map_of kvs ''model_params'' = Some default_model_params
            \<and> map_of kvs ''position'' = Some v
            \<and> - 2900 \<le> p \<and> p \<le> 6800 \<and> 1 \<le> th \<longrightarrow>
          (\<exists>out kvs'.
             repeat_cycles
               (\<lambda>od b. compute_model_based_orders loads dumps tp od p b 4 bq th mp) ods td
               = Inr ([], out)
             \<and> loads out = Some (JObj kvs')
             \<and> map_of kvs' ''position'' = Some v))"
proof (intro conjI impI)
  assume a: "loads td = Some (JObj kvs) \<and> map_of kvs ''rainforest_prices'' = Some (JArr xs)
            \<and> 0 < window_size \<and> window_size \<le> length xs
            \<and> (\<forall>x\<in>set (last_n window_size xs). x = JNum p)
            \<and> \<bar>p\<bar> \<le> 10 ^ 9"
  then have a1: "loads td = Some (JObj kvs)"
    and a2: "map_of kvs ''rainforest_prices'' = Some (JArr xs)"
    and a3: "0 < window_size" and a4: "window_size \<le> length xs"
    and a5: "\<forall>x\<in>set (last_n window_size xs). x = JNum p"
    by simp_all
  from rainforest_flat_cycles
    [where loads = loads and dumps = dumps and td = td and tp = tp and bq = bq and ods = ods,
      OF assms a3 a1 a2 a4 a5]
  obtain out kvs' where r:
    "repeat_cycles (\<lambda>od b. compute_rainforest_orders loads dumps tp od p b window_size bq) ods td
       = Inr ([], out)"
    "loads out = Some (JObj kvs')"
    "\<forall>k. k \<noteq> ''rainforest_prices'' \<longrightarrow> map_of kvs' k = map_of kvs k"
    by (elim exE conjE)
  from r(3) have "map_of kvs' ''position'' = map_of kvs ''position''"
    by simp
  with r(1,2) show "\<exists>out kvs'.
             repeat_cycles
               (\<lambda>od b. compute_rainforest_orders loads dumps tp od p b window_size bq) ods td
               = Inr ([], out)
             \<and> loads out = Some (JObj kvs')
             \<and> map_of kvs' ''position'' = map_of kvs ''position''"
    by (intro exI [of _ out] exI [of _ kvs']) simp
next
  assume b: "loads td = Some (JObj kvs) \<and> map_of kvs ''model_history'' = Some (JArr xs)
            \<and> 4 \<le> length xs \<and> (\<forall>x\<in>set (last_n 4 xs). x = JNum p)
            \<and> map_of kvs ''model_params'' = Some default_model_params
            \<and> map_of kvs ''position'' = Some v
            \<and> - 2900 \<le> p \<and> p \<le> 6800 \<and> 1 \<le> th"
  then have b1: "loads td = Some (JObj kvs)"
    and b2: "map_of kvs ''model_history'' = Some (JArr xs)"
    and b3: "4 \<le> length xs" and b4: "\<forall>x\<in>set (last_n 4 xs). x = JNum p"
    and b5: "map_of kvs ''model_params'' = Some default_model_params"
    and b6: "map_of kvs ''position'' = Some v"
    and range: "- 2900 \<le> p" "p \<le> 6800" "1 \<le> th"
    by simp_all
  from range(1,2) have "\<bar>0.39903304835706876 - 0.00020563 * p\<bar> \<le> 1"
    by (simp add: abs_le_iff)
  with range(3) have b7: "\<bar>0.39903304835706876 - 0.00020563 * p\<bar> \<le> th"
    by simp
  from model_flat_cycles
    [where loads = loads and dumps = dumps and td = td and tp = tp and bq = bq and mp = mp
       and ods = ods, OF assms b7 b1 b2 b3 b4 b5 b6]
  show "\<exists>out kvs'.
             repeat_cycles
               (\<lambda>od b. compute_model_based_orders loads dumps tp od p b 4 bq th mp) ods td
               = Inr ([], out)
             \<and> loads out = Some (JObj kvs')
             \<and> map_of kvs' ''position'' = Some v" .
qed

theorem flat_price_gives_no_signal_witness:
  "(\<exists>out kvs'.
      repeat_cycles
        (\<lambda>od b. compute_rainforest_orders (\<lambda>b. b) Some ''RAINFOREST_RESIN'' od 10000 b 20 10)
        [\<lparr>buy_orders = [(9999, 5)], sell_orders = [(10001, - 5)]\<rparr>,
         \<lparr>buy_orders = [(9999, 5)], sell_orders = [(10001, - 5)]\<rparr>]
        (Some (JObj [(''rainforest_prices'', JArr
          [JNum 10000, JNum 10000, JNum 10000, JNum 10000, JNum 10000,
           JNum 10000, JNum 10000, JNum 10000, JNum 10000, JNum 10000,
           JNum 10000, JNum 10000, JNum 10000, JNum 10000, JNum 10000,
           JNum 10000, JNum 10000, JNum 10000, JNum 10000, JNum 10000]),
          (''position'', JNum 7)]))
      = Inr ([], out)
      \<and> out = Some (JObj kvs') \<and> map_of kvs' ''position'' = Some (JNum 7))
   \<and> (\<exists>out kvs'.
      repeat_cycles
        (\<lambda>od b. compute_model_based_orders (\<lambda>b. b) Some ''RAINFOREST_RESIN'' od 2000 b 4 10 1 50)
        [\<lparr>buy_orders = [(1999, 5)], sell_orders = [(2001, - 5)]\<rparr>,
         \<lparr>buy_orders = [(1999, 5)], sell_orders = [(2001, - 5)]\<rparr>]
        (Some (JObj [(''model_history'', JArr [JNum 2000, JNum 2000, JNum 2000, JNum 2000]),
                     (''position'', JNum 0), (''model_params'', default_model_params)]))
      = Inr ([], out)
      \<and> out = Some (JObj kvs') \<and> map_of kvs' ''position'' = Some (JNum 0))"
proof -
  note inst = flat_price_gives_no_signal [where loads = "\<lambda>b. b" and dumps = Some, OF refl]
  have "\<exists>out kvs'.
      repeat_cycles
        (\<lambda>od b. compute_rainforest_orders (\<lambda>b. b) Some ''RAINFOREST_RESIN'' od 10000 b 20 10)
        [\<lparr>buy_orders = [(9999, 5)], sell_orders = [(10001, - 5)]\<rparr>,
         \<lparr>buy_orders = [(9999, 5)], sell_orders = [(10001, - 5)]\<rparr>]
        (Some (JObj [(''rainforest_prices'', JArr
          [JNum 10000, JNum 10000, JNum 10000, JNum 10000, JNum 10000,
           JNum 10000, JNum 10000, JNum 10000, JNum 10000, JNum 10000,
           JNum 10000, JNum 10000, JNum 10000, JNum 10000, JNum 10000,
           JNum 10000, JNum 10000, JNum 10000, JNum 10000, JNum 10000]),
          (''position'', JNum 7)]))
      = Inr ([], out)
      \<and> out = Some (JObj kvs')
      \<and> map_of kvs' ''position''
          = map_of [(''rainforest_prices'', JArr
          [JNum 10000, JNum 10000, JNum 10000, JNum 10000, JNum 10000,
           JNum 10000, JNum 10000, JNum 10000, JNum 10000, JNum 10000,
           JNum 10000, JNum 10000, JNum 10000, JNum 10000, JNum 10000,
           JNum 10000, JNum 10000, JNum 10000, JNum 10000, JNum 10000]),
          (''position'', JNum 7)] ''position''"
    by (rule inst [THEN conjunct1, rule_format,
          where xs = "[JNum 10000, JNum 10000, JNum 10000, JNum 10000, JNum 10000,
           JNum 10000, JNum 10000, JNum 10000, JNum 10000, JNum 10000,
           JNum 10000, JNum 10000, JNum 10000, JNum 10000, JNum 10000,
           JNum 10000, JNum 10000, JNum 10000, JNum 10000, JNum 10000]"])
      (simp add: last_n_def)
  moreover have "\<exists>out kvs'.
      repeat_cycles
        (\<lambda>od b. compute_model_based_orders (\<lambda>b. b) Some ''RAINFOREST_RESIN'' od 2000 b 4 10 1 50)
        [\<lparr>buy_orders = [(1999, 5)], sell_orders = [(2001, - 5)]\<rparr>,
         \<lparr>buy_orders = [(1999, 5)], sell_orders = [(2001, - 5)]\<rparr>]
        (Some (JObj [(''model_history'', JArr [JNum 2000, JNum 2000, JNum 2000, JNum 2000]),
                     (''position'', JNum 0), (''model_params'', default_model_params)]))
      = Inr ([], out)
      \<and> out = Some (JObj kvs') \<and> map_of kvs' ''position'' = Some (JNum 0)"
    by (rule inst [THEN conjunct2, rule_format,
          where xs = "[JNum 2000, JNum 2000, JNum 2000, JNum 2000]"
            and kvs = "[(''model_history'', JArr [JNum 2000, JNum 2000, JNum 2000, JNum 2000]),
                        (''position'', JNum 0), (''model_params'', default_model_params)]"])
      (simp add: last_n_def)
  ultimately show ?thesis by simp
qed

text \<open>
  C2 fails as stated for the autoregressive strategy: with the window full of 10000,
  position 0 and a bid in the book, one more call at mid-price 10000 computes the
  deviation \<open>0.39903304835706876 - 2.0563 < - 1\<close>, sells 50 at the best bid and stores
  position -50.
\<close>

theorem flat_price_sell_counterexample:
  "compute_model_based_orders (\<lambda>b. b) Some ''RAINFOREST_RESIN''
       \<lparr>buy_orders = [(9999, 5)], sell_orders = [(10001, - 5)]\<rparr> 10000
       (Some (JObj [(''model_history'', JArr [JNum 10000, JNum 10000, JNum 10000, JNum 10000]),
                    (''position'', JNum 0), (''model_params'', default_model_params)]))
       4 10 1 50
     = Inr ([\<lparr>symbol = ''RAINFOREST_RESIN'', price = 9999, quantity = - 50\<rparr>],
            Some (JObj [(''model_history'',
                           JArr [JNum 10000, JNum 10000, JNum 10000, JNum 10000, JNum 10000]),
                        (''position'', JNum (- 50)),
                        (''model_params'', default_model_params)]))"
  by (simp add: compute_model_based_orders_def load_model_history_def init_key_def
      append_at_def last_n_def default_model_params_def predict_def py_product_def
      model_decision_def model_order_quantity_def double_overflow_def py_float_def max_key_def)

subsection \<open>A history shorter than the lookback\<close>









subsection \<open>The result of a cycle\<close>




end
